theory Spec2Isabelle
  imports Main "HOL-Library.Word"
begin

unbundle bit_operations_syntax

section \<open>Machine values\<close>

text \<open>
  AArch64 is an LP64 platform: an \<^verbatim>\<open>address\<close>, an \<^verbatim>\<open>intptr_t\<close> and every
  pointer are 64-bit words, and \<^verbatim>\<open>wordSize = sizeof(void*) = 8\<close>. A null pointer is the
  word \<open>0\<close>. Pointer comparison is the unsigned order of words.

  The stack is a map from the address of a slot to the 64-bit word stored there; every
  load of the modelled functions is a load of one \<^verbatim>\<open>intptr_t\<close> or \<^verbatim>\<open>address\<close>.
\<close>

type_synonym address = "64 word"

type_synonym memory = "address \<Rightarrow> address"

definition wordSize :: int where
  "wordSize = 8"

text \<open>\<^verbatim>\<open>p + n\<close> for an \<^verbatim>\<open>intptr_t* p\<close> and an \<^verbatim>\<open>int n\<close>: \<open>n\<close> words further.\<close>

definition plus_words :: "address \<Rightarrow> int \<Rightarrow> address" where
  "plus_words p n = p + word_of_int (wordSize * n)"

text \<open>
  \<^verbatim>\<open>p - q\<close> for two \<^verbatim>\<open>intptr_t*\<close>: the signed distance in words (a \<^verbatim>\<open>ptrdiff_t\<close>).
\<close>

definition minus_ptr :: "address \<Rightarrow> address \<Rightarrow> int" where
  "minus_ptr p q = sint (p - q) div wordSize"

section \<open>Data model\<close>

text \<open>
  The three values of \<^verbatim>\<open>frame::deopt_state\<close>.
\<close>

datatype deopt_state = not_deoptimized | is_deoptimized | unknown

text \<open>
  A \<^verbatim>\<open>frame\<close>: the fields \<^verbatim>\<open>_sp\<close>, \<^verbatim>\<open>_unextended_sp\<close>, \<^verbatim>\<open>_fp\<close>, \<^verbatim>\<open>_pc\<close>,
  \<^verbatim>\<open>_cb\<close> (a pointer to the code blob of \<^verbatim>\<open>_pc\<close>, null when there is none),
  \<^verbatim>\<open>_deopt_state\<close> and \<^verbatim>\<open>_on_heap\<close>, named as their accessors \<^verbatim>\<open>sp()\<close>,
  \<^verbatim>\<open>fp()\<close>, ...
\<close>

record frame =
  sp :: address
  unextended_sp :: address
  fp :: address
  pc :: address
  cb :: address
  deopt_state :: deopt_state
  on_heap :: bool

text \<open>
  What \<^verbatim>\<open>frame::safe_for_sender\<close> asks of an \<^verbatim>\<open>nmethod\<close> and of a \<^verbatim>\<open>CodeBlob\<close>.
  \<open>method_is_method_handle_intrinsic\<close> is \<^verbatim>\<open>nm->method()->is_method_handle_intrinsic()\<close>;
  \<^verbatim>\<open>frame_size()\<close> is a C \<^verbatim>\<open>int\<close>, counted in words.
\<close>

record nmethod =
  is_deopt_mh_entry :: "address \<Rightarrow> bool"
  is_deopt_entry :: "address \<Rightarrow> bool"
  method_is_method_handle_intrinsic :: bool

record code_blob =
  is_frame_complete_at :: "address \<Rightarrow> bool"
  code_contains :: "address \<Rightarrow> bool"
  frame_size :: int
  is_nmethod :: bool
  is_adapter_blob :: bool
  is_runtime_stub :: bool
  is_upcall_stub :: bool
  as_nmethod_or_null :: "nmethod option"

text \<open>
  The stack-bounds predicates of a \<^verbatim>\<open>JavaThread\<close>. They are defined with the
  thread, not in the frame code, so a thread is the four predicates the frame code calls.
\<close>

record java_thread =
  is_in_usable_stack :: "address \<Rightarrow> bool"
  is_in_full_stack_checked :: "address \<Rightarrow> bool"
  is_in_stack_range_excl :: "address \<Rightarrow> address \<Rightarrow> bool"
  is_in_stack_range_incl :: "address \<Rightarrow> address \<Rightarrow> bool"

text \<open>
  Everything else the frame code calls and does not define itself is a parameter,
  collected in three records.

  \<^item> \<open>frame_layout\<close>: the offset constants of the AArch64 frame header (in words,
    relative to \<^verbatim>\<open>fp\<close>) and \<^verbatim>\<open>Interpreter::stackElementSize\<close>, a C \<^verbatim>\<open>int\<close>
    and so a 32-bit word.
  \<^item> \<open>code_heap\<close>: \<^verbatim>\<open>CodeCache::find_blob\<close> (null when no blob holds the pc), the blob
    behind a \<^verbatim>\<open>CodeBlob*\<close>, \<^verbatim>\<open>Interpreter::contains\<close>,
    \<^verbatim>\<open>StubRoutines::returns_to_call_stub\<close>, the \<^verbatim>\<open>Method\<close> and metaspace predicates
    (\<^verbatim>\<open>max_stack()\<close> returns a C \<^verbatim>\<open>int\<close>, a 32-bit word), and the
    pointer-authentication transforms.
  \<^item> \<open>vm\<close>: the two records above, the build flag \<open>ASSERT\<close> (true in a build that
    compiles \<^verbatim>\<open>assert\<close> and \<^verbatim>\<open>vmassert\<close> in, false in a product build, where both
    expand to nothing), the \<^verbatim>\<open>Continuation\<close> queries, and the members of
    \<^verbatim>\<open>frame\<close> that are defined in the frame headers: the frame kinds, the
    four-argument constructor (\<open>new_frame\<close>), \<^verbatim>\<open>addr_at\<close> and the accessors of the
    interpreter and entry frame slots. Those that load from the stack take the stack.
\<close>

record frame_layout =
  link_offset :: int
  return_addr_offset :: int
  sender_sp_offset :: int
  interpreter_frame_sender_sp_offset :: int
  interpreter_frame_initial_sp_offset :: int
  stackElementSize :: "32 word"

record code_heap =
  find_blob :: "address \<Rightarrow> address"
  blob_at :: "address \<Rightarrow> code_blob"
  Interpreter_contains :: "address \<Rightarrow> bool"
  returns_to_call_stub :: "address \<Rightarrow> bool"
  is_valid_method :: "address \<Rightarrow> bool"
  max_stack :: "address \<Rightarrow> 32 word"
  validate_bci_from_bcp :: "address \<Rightarrow> address \<Rightarrow> int"
  MetaspaceObj_is_valid :: "address \<Rightarrow> bool"
  pauth_strip_verifiable :: "address \<Rightarrow> address"
  pauth_strip_pointer :: "address \<Rightarrow> address"
  pauth_sign_return_address :: "address \<Rightarrow> address"

record vm =
  ASSERT :: bool
  layout :: frame_layout
  heap :: code_heap
  is_return_barrier_entry :: "address \<Rightarrow> bool"
  is_frame_in_continuation :: "java_thread \<Rightarrow> frame \<Rightarrow> bool"
  continuation_bottom_sender :: "java_thread \<Rightarrow> frame \<Rightarrow> address \<Rightarrow> frame"
  is_heap_frame :: "frame \<Rightarrow> bool"
  is_entry_frame :: "frame \<Rightarrow> bool"
  is_upcall_stub_frame :: "frame \<Rightarrow> bool"
  is_interpreted_frame :: "frame \<Rightarrow> bool"
  is_entry_frame_valid :: "memory \<Rightarrow> java_thread \<Rightarrow> frame \<Rightarrow> bool"
  addr_at :: "frame \<Rightarrow> int \<Rightarrow> address"
  new_frame :: "address \<Rightarrow> address \<Rightarrow> address \<Rightarrow> address \<Rightarrow> frame"
  entry_frame_call_wrapper :: "memory \<Rightarrow> frame \<Rightarrow> address"
  get_deopt_original_pc :: "memory \<Rightarrow> frame \<Rightarrow> address"
  safe_interpreter_frame_method :: "memory \<Rightarrow> frame \<Rightarrow> address"
  interpreter_frame_bcp :: "memory \<Rightarrow> frame \<Rightarrow> address"
  interpreter_frame_cache_addr :: "frame \<Rightarrow> address"
  interpreter_frame_locals :: "memory \<Rightarrow> frame \<Rightarrow> address"

text \<open>
  A failed assertion aborts the VM. One constructor for each assertion of the modelled
  functions, in the order of the source: \<^verbatim>\<open>"Not an interpreted frame"\<close>
  (\<^verbatim>\<open>is_interpreted_frame_valid\<close>), \<^verbatim>\<open>"should count return address at least"\<close>
  (\<^verbatim>\<open>safe_for_sender\<close>), \<^verbatim>\<open>"unexpected pc"\<close>, \<^verbatim>\<open>"return barrier"\<close>, the unnamed
  consistency assertion and \<^verbatim>\<open>"expected original PC to be stored before patching"\<close>
  (\<^verbatim>\<open>patch_pc\<close>), \<^verbatim>\<open>"not called from Java code?"\<close>, \<^verbatim>\<open>"already walkable"\<close> and
  \<^verbatim>\<open>"something went wrong"\<close> (\<^verbatim>\<open>make_walkable\<close>).
\<close>

datatype vm_error =
    Not_an_interpreted_frame
  | Should_count_return_address
  | Unexpected_pc
  | Return_barrier
  | Return_address_mismatch
  | Original_pc_not_stored
  | Not_called_from_Java_code
  | Already_walkable
  | Something_went_wrong

section \<open>The interpreted-frame plausibility check\<close>

text \<open>
  \<^verbatim>\<open>frame::is_interpreted_frame_valid\<close>, test by test. The distance to the frame
  pointer is taken from \<^verbatim>\<open>unextended_sp()\<close>, "the sp as seen by the current frame".
  Its bound \<^verbatim>\<open>1024 + m->max_stack()*Interpreter::stackElementSize\<close> is computed in C
  \<^verbatim>\<open>int\<close>: 32 bits, wrapping around, and read as a signed value when it is compared
  with the \<^verbatim>\<open>ptrdiff_t\<close> on the left. The local \<^verbatim>\<open>Method* m\<close> is \<open>md\<close> here, \<open>m\<close>
  being the stack.
\<close>

definition is_interpreted_frame_valid ::
  "vm \<Rightarrow> java_thread \<Rightarrow> memory \<Rightarrow> frame \<Rightarrow> vm_error + bool" where
  "is_interpreted_frame_valid env thread m f =
    (if ASSERT env \<and> \<not> is_interpreted_frame env f then Inl Not_an_interpreted_frame
     else if fp f = 0 \<or> fp f AND word_of_int (wordSize - 1) \<noteq> 0 then Inr False
     else if sp f = 0 \<or> sp f AND word_of_int (wordSize - 1) \<noteq> 0 then Inr False
     else if plus_words (fp f) (interpreter_frame_initial_sp_offset (layout env)) < sp f
       then Inr False
     else if fp f \<le> sp f then Inr False
     else
       let md = safe_interpreter_frame_method env m f in
       if \<not> is_valid_method (heap env) md then Inr False
       else if minus_ptr (fp f) (unextended_sp f)
                 > sint (1024 + max_stack (heap env) md * stackElementSize (layout env))
         then Inr False
       else
         let bcp = interpreter_frame_bcp env m f in
         if validate_bci_from_bcp (heap env) md bcp < 0 then Inr False
         else
           let cp = m (interpreter_frame_cache_addr env f) in
           if MetaspaceObj_is_valid (heap env) cp = False then Inr False
           else
             let locals = interpreter_frame_locals env m f in
             Inr (is_in_stack_range_incl thread locals (fp f)))"

section \<open>The safety check before a sender is computed\<close>

text \<open>
  \<^verbatim>\<open>frame::safe_for_sender\<close> is one function of some two hundred lines. The model
  follows its text in five pieces, each a run of consecutive lines:
  \<^item> \<open>fp_safe\<close>: the local \<^verbatim>\<open>fp_safe\<close> (lines 89 to 90);
  \<^item> \<open>sender_candidate\<close>: the locals \<^verbatim>\<open>sender_sp\<close>, \<^verbatim>\<open>sender_unextended_sp\<close>,
    \<^verbatim>\<open>saved_fp\<close> and \<^verbatim>\<open>sender_pc\<close> as lines 124 to 162 compute them, \<open>None\<close> where
    these lines \<^verbatim>\<open>return false\<close>;
  \<^item> \<open>safe_for_sender_checks\<close>: lines 176 to 260, the checks of the potential sender;
  \<^item> \<open>safe_for_sender_barrier\<close>: lines 164 to 174, the return barrier, followed by
    the checks;
  \<^item> \<open>safe_for_sender\<close>: the function, lines 57 to 279.
\<close>

definition fp_safe :: "vm \<Rightarrow> java_thread \<Rightarrow> frame \<Rightarrow> bool" where
  "fp_safe env thread f \<longleftrightarrow>
     is_in_stack_range_excl thread (fp f) (sp f) \<and>
     is_in_full_stack_checked thread
       (fp f + word_of_int (return_addr_offset (layout env) * wordSize))"

definition sender_candidate ::
  "vm \<Rightarrow> java_thread \<Rightarrow> memory \<Rightarrow> frame
    \<Rightarrow> (address \<times> address \<times> address \<times> address) option" where
  "sender_candidate env thread m f =
    (if is_interpreted_frame env f then
       if \<not> fp_safe env thread f then None
       else
         Some (addr_at env f (sender_sp_offset (layout env)),
               m (plus_words (fp f) (interpreter_frame_sender_sp_offset (layout env))),
               m (plus_words (fp f) (link_offset (layout env))),
               pauth_strip_verifiable (heap env)
                 (m (plus_words (fp f) (return_addr_offset (layout env)))))
     else
       if frame_size (blob_at (heap env) (cb f)) \<le> 0 then None
       else
         let sender_sp = plus_words (unextended_sp f) (frame_size (blob_at (heap env) (cb f))) in
         if \<not> is_in_full_stack_checked thread sender_sp then None
         else
           Some (sender_sp,
                 sender_sp,
                 m (plus_words sender_sp (- sender_sp_offset (layout env))),
                 pauth_strip_pointer (heap env) (m (plus_words sender_sp (- 1)))))"

definition safe_for_sender_checks ::
  "vm \<Rightarrow> java_thread \<Rightarrow> memory \<Rightarrow> address \<Rightarrow> address \<Rightarrow> address \<Rightarrow> address
    \<Rightarrow> vm_error + bool" where
  "safe_for_sender_checks env thread m sender_sp sender_unextended_sp saved_fp sender_pc =
    (if Interpreter_contains (heap env) sender_pc then
       if \<not> is_in_stack_range_excl thread saved_fp sender_sp then Inr False
       else
         is_interpreted_frame_valid env thread m
           (new_frame env sender_sp sender_unextended_sp saved_fp sender_pc)
     else
       let sender_blob = find_blob (heap env) sender_pc in
       if sender_pc = 0 \<or> sender_blob = 0 then Inr False
       else if \<not> code_contains (blob_at (heap env) sender_blob) sender_pc then Inr False
       else if is_adapter_blob (blob_at (heap env) sender_blob) then Inr False
       else if returns_to_call_stub (heap env) sender_pc then
         if \<not> is_in_stack_range_excl thread saved_fp sender_sp then Inr False
         else
           let sender = new_frame env sender_sp sender_unextended_sp saved_fp sender_pc;
               jcw = entry_frame_call_wrapper env m sender
           in Inr (is_in_stack_range_excl thread jcw (fp sender))
       else if is_upcall_stub (blob_at (heap env) sender_blob) then Inr False
       else if (case as_nmethod_or_null (blob_at (heap env) sender_blob) of
                  None \<Rightarrow> False
                | Some nm \<Rightarrow>
                    is_deopt_mh_entry nm sender_pc \<or> is_deopt_entry nm sender_pc \<or>
                    method_is_method_handle_intrinsic nm)
         then Inr False
       else if frame_size (blob_at (heap env) sender_blob) \<le> 0 then
         if ASSERT env \<and> \<not> \<not> is_nmethod (blob_at (heap env) sender_blob)
         then Inl Should_count_return_address
         else Inr False
       else if \<not> is_nmethod (blob_at (heap env) sender_blob) then Inr False
       else Inr True)"

definition safe_for_sender_barrier ::
  "vm \<Rightarrow> java_thread \<Rightarrow> memory \<Rightarrow> frame \<Rightarrow> address \<Rightarrow> address \<Rightarrow> address \<Rightarrow> address
    \<Rightarrow> vm_error + bool" where
  "safe_for_sender_barrier env thread m f sender_sp sender_unextended_sp saved_fp sender_pc =
    (if is_return_barrier_entry env sender_pc then
       if \<not> is_frame_in_continuation env thread f then Inr False
       else
         let s = continuation_bottom_sender env thread f sender_sp in
         safe_for_sender_checks env thread m (sp s) sender_unextended_sp saved_fp (pc s)
     else
       safe_for_sender_checks env thread m sender_sp sender_unextended_sp saved_fp sender_pc)"

definition safe_for_sender :: "vm \<Rightarrow> java_thread \<Rightarrow> memory \<Rightarrow> frame \<Rightarrow> vm_error + bool" where
  "safe_for_sender env thread m f =
    (if is_heap_frame env f then Inr True
     else if \<not> is_in_usable_stack thread (sp f) then Inr False
     else if \<not> is_in_full_stack_checked thread (unextended_sp f) then Inr False
     else if cb f \<noteq> 0 then
       if \<not> is_frame_complete_at (blob_at (heap env) (cb f)) (pc f) \<and>
          (is_nmethod (blob_at (heap env) (cb f)) \<or>
           is_adapter_blob (blob_at (heap env) (cb f)) \<or>
           is_runtime_stub (blob_at (heap env) (cb f)))
         then Inr False
       else if \<not> code_contains (blob_at (heap env) (cb f)) (pc f) then Inr False
       else if is_entry_frame env f then
         Inr (fp_safe env thread f \<and> is_entry_frame_valid env m thread f)
       else if is_upcall_stub_frame env f then Inr (fp_safe env thread f)
       else
         (case sender_candidate env thread m f of
            None \<Rightarrow> Inr False
          | Some (sender_sp, sender_unextended_sp, saved_fp, sender_pc) \<Rightarrow>
              safe_for_sender_barrier env thread m f
                sender_sp sender_unextended_sp saved_fp sender_pc)
     else if \<not> fp_safe env thread f then Inr False
     else if m (plus_words (fp f) (return_addr_offset (layout env))) = 0 then Inr False
     else Inr True)"

section \<open>Patching the return address\<close>

text \<open>
  \<^verbatim>\<open>frame::patch_pc\<close> writes one stack slot and two fields of the frame, so the model
  takes the stack and the frame and returns both. The \<^verbatim>\<open>TracePcPatching\<close> output is
  diagnostic text only and is left out.
\<close>

definition patch_pc :: "vm \<Rightarrow> memory \<Rightarrow> frame \<Rightarrow> address \<Rightarrow> vm_error + memory \<times> frame" where
  "patch_pc env m f new_pc =
    (if ASSERT env \<and> \<not> cb f = find_blob (heap env) new_pc then Inl Unexpected_pc
     else
       let pc_addr = plus_words (sp f) (- 1);
           signed_pc = pauth_sign_return_address (heap env) new_pc;
           pc_old = pauth_strip_verifiable (heap env) (m pc_addr)
       in
       if ASSERT env \<and> \<not> \<not> is_return_barrier_entry env pc_old then Inl Return_barrier
       else if ASSERT env \<and> \<not> (pc f = pc_old \<or> new_pc = pc_old \<or> pc_old = 0)
         then Inl Return_address_mismatch
       else
         let old_pc = pc f;
             m' = m(pc_addr := signed_pc);
             f' = f\<lparr>pc := new_pc\<rparr>;
             original_pc = get_deopt_original_pc env m' f'
         in
         if original_pc \<noteq> 0 then
           if ASSERT env \<and> \<not> original_pc = old_pc then Inl Original_pc_not_stored
           else Inr (m', f'\<lparr>deopt_state := is_deoptimized, pc := original_pc\<rparr>)
         else Inr (m', f'\<lparr>deopt_state := not_deoptimized\<rparr>))"

section \<open>The frame anchor\<close>

record java_frame_anchor =
  last_Java_sp :: address
  last_Java_fp :: address
  last_Java_pc :: address

text \<open>
  Modelled from the spec: \<^verbatim>\<open>JavaFrameAnchor::walkable()\<close> is declared in the anchor's
  header, which is not among the source files. The spec gives the anchor three
  states: unset (no pending call-out), set-not-walkable (pc not yet captured) and
  set-walkable. So an anchor is walkable when a call-out is recorded and its pc is
  captured; \<^verbatim>\<open>make_walkable\<close> itself tells a pc not yet captured by its being null
  (\<^verbatim>\<open>vmassert(last_Java_pc() == nullptr, "already walkable")\<close>).
\<close>

definition walkable :: "java_frame_anchor \<Rightarrow> bool" where
  "walkable a \<longleftrightarrow> last_Java_sp a \<noteq> 0 \<and> last_Java_pc a \<noteq> 0"

text \<open>
  \<^verbatim>\<open>JavaFrameAnchor::make_walkable\<close>. The result is the anchor after the call and the
  list of the stack slots the call has loaded, in order.
\<close>

definition make_walkable ::
  "vm \<Rightarrow> memory \<Rightarrow> java_frame_anchor \<Rightarrow> vm_error + java_frame_anchor \<times> address list" where
  "make_walkable env m a =
    (if last_Java_sp a = 0 then Inr (a, [])
     else if walkable a then Inr (a, [])
     else if ASSERT env \<and> \<not> last_Java_sp a \<noteq> 0 then Inl Not_called_from_Java_code
     else if ASSERT env \<and> \<not> last_Java_pc a = 0 then Inl Already_walkable
     else
       let a' = a\<lparr>last_Java_pc := m (plus_words (last_Java_sp a) (- 1))\<rparr> in
       if ASSERT env \<and> \<not> walkable a' then Inl Something_went_wrong
       else Inr (a', [plus_words (last_Java_sp a) (- 1)]))"

text \<open>
  Two consecutive calls on the same stack: the anchor after each call and the slots
  loaded by both, in order.
\<close>

definition make_walkable_twice ::
  "vm \<Rightarrow> memory \<Rightarrow> java_frame_anchor
    \<Rightarrow> vm_error + java_frame_anchor \<times> java_frame_anchor \<times> address list" where
  "make_walkable_twice env m a =
    (case make_walkable env m a of
       Inl e \<Rightarrow> Inl e
     | Inr (a1, loaded1) \<Rightarrow>
         (case make_walkable env m a1 of
            Inl e \<Rightarrow> Inl e
          | Inr (a2, loaded2) \<Rightarrow> Inr (a1, a2, loaded1 @ loaded2)))"

section \<open>A sample VM\<close>

text \<open>
  The examples of this theory run the functions on one small VM: a thread whose stack is
  \<open>[0x10000, 0x20000)\<close> with guard pages below \<open>0x12000\<close>, a code cache with one
  compiled method (code \<open>[0x4000, 0x5000)\<close>, frame size 4 words, deoptimization
  handler at \<open>0x4F00\<close>), the interpreter (code \<open>[0x6000, 0x7000)\<close>) and one stub
  blob (code \<open>[0x8000, 0x9000)\<close>, frame size 0) that holds the call stub's return
  address \<open>0x8008\<close> and the return barrier \<open>0x8100\<close>, and the AArch64 frame offsets.
  Return addresses are signed by setting bits 48 to 55 and stripped by clearing them.
\<close>

definition test_layout :: frame_layout where
  "test_layout = \<lparr> link_offset = 0, return_addr_offset = 1, sender_sp_offset = 2,
     interpreter_frame_sender_sp_offset = - 1, interpreter_frame_initial_sp_offset = - 10,
     stackElementSize = 8 \<rparr>"

definition test_thread :: java_thread where
  "test_thread = \<lparr>
     is_in_usable_stack = (\<lambda>a. 0x12000 \<le> a \<and> a < 0x20000),
     is_in_full_stack_checked = (\<lambda>a. 0x10000 \<le> a \<and> a < 0x20000),
     is_in_stack_range_excl = (\<lambda>a limit. a < 0x20000 \<and> limit < a),
     is_in_stack_range_incl = (\<lambda>a limit. a < 0x20000 \<and> limit \<le> a) \<rparr>"

definition test_nmethod :: nmethod where
  "test_nmethod = \<lparr> is_deopt_mh_entry = (\<lambda>a. a = 0x4F08), is_deopt_entry = (\<lambda>a. a = 0x4F00),
     method_is_method_handle_intrinsic = False \<rparr>"

definition test_nmethod_blob :: code_blob where
  "test_nmethod_blob = \<lparr> is_frame_complete_at = (\<lambda>a. 0x4008 \<le> a),
     code_contains = (\<lambda>a. 0x4000 \<le> a \<and> a < 0x5000), frame_size = 4,
     is_nmethod = True, is_adapter_blob = False, is_runtime_stub = False,
     is_upcall_stub = False, as_nmethod_or_null = Some test_nmethod \<rparr>"

definition test_stub_blob :: code_blob where
  "test_stub_blob = \<lparr> is_frame_complete_at = (\<lambda>a. True),
     code_contains = (\<lambda>a. 0x8000 \<le> a \<and> a < 0x9000), frame_size = 0,
     is_nmethod = False, is_adapter_blob = False, is_runtime_stub = False,
     is_upcall_stub = False, as_nmethod_or_null = None \<rparr>"

definition test_interpreter_blob :: code_blob where
  "test_interpreter_blob = \<lparr> is_frame_complete_at = (\<lambda>a. True),
     code_contains = (\<lambda>a. 0x6000 \<le> a \<and> a < 0x7000), frame_size = 0,
     is_nmethod = False, is_adapter_blob = False, is_runtime_stub = False,
     is_upcall_stub = False, as_nmethod_or_null = None \<rparr>"

definition test_find_blob :: "address \<Rightarrow> address" where
  "test_find_blob a =
    (if 0x4000 \<le> a \<and> a < 0x5000 then 0xA00
     else if 0x6000 \<le> a \<and> a < 0x7000 then 0xE00
     else if 0x8000 \<le> a \<and> a < 0x9000 then 0xB00 else 0)"

definition test_heap :: code_heap where
  "test_heap = \<lparr>
     find_blob = test_find_blob,
     blob_at = (\<lambda>p. if p = 0xA00 then test_nmethod_blob
                       else if p = 0xE00 then test_interpreter_blob else test_stub_blob),
     Interpreter_contains = (\<lambda>a. 0x6000 \<le> a \<and> a < 0x7000),
     returns_to_call_stub = (\<lambda>a. a = 0x8008),
     is_valid_method = (\<lambda>p. p = 0xC00),
     max_stack = (\<lambda>p. 5),
     validate_bci_from_bcp = (\<lambda>p bcp. if 0xC40 \<le> bcp \<and> bcp < 0xC80 then uint (bcp - 0xC40) else - 1),
     MetaspaceObj_is_valid = (\<lambda>p. p = 0xD00),
     pauth_strip_verifiable = (\<lambda>a. a AND 0xFF00FFFFFFFFFFFF),
     pauth_strip_pointer = (\<lambda>a. a AND 0xFF00FFFFFFFFFFFF),
     pauth_sign_return_address = (\<lambda>a. a OR 0x00A5000000000000) \<rparr>"

definition test_vm :: vm where
  "test_vm = \<lparr>
     ASSERT = True,
     layout = test_layout,
     heap = test_heap,
     is_return_barrier_entry = (\<lambda>a. a = 0x8100),
     is_frame_in_continuation = (\<lambda>thread f. False),
     continuation_bottom_sender = (\<lambda>thread f sender_sp.
       \<lparr> sp = 0x14020, unextended_sp = 0x14020, fp = 0x14080, pc = 0x8008, cb = 0xB00,
         deopt_state = not_deoptimized, on_heap = False \<rparr>),
     is_heap_frame = on_heap,
     is_entry_frame = (\<lambda>f. pc f = 0x8008),
     is_upcall_stub_frame = (\<lambda>f. False),
     is_interpreted_frame = (\<lambda>f. 0x6000 \<le> pc f \<and> pc f < 0x7000),
     is_entry_frame_valid = (\<lambda>m thread f. fp f < m (plus_words (fp f) (- 8))),
     addr_at = (\<lambda>f index. plus_words (fp f) index),
     new_frame = (\<lambda>a b c d. \<lparr> sp = a, unextended_sp = b, fp = c, pc = d,
       cb = test_find_blob d, deopt_state = not_deoptimized, on_heap = False \<rparr>),
     entry_frame_call_wrapper = (\<lambda>m f. m (plus_words (fp f) (- 8))),
     get_deopt_original_pc = (\<lambda>m f. if pc f = 0x4F00 then m (plus_words (unextended_sp f) 1) else 0),
     safe_interpreter_frame_method = (\<lambda>m f. m (plus_words (fp f) (- 3))),
     interpreter_frame_bcp = (\<lambda>m f. m (plus_words (fp f) (- 9))),
     interpreter_frame_cache_addr = (\<lambda>f. plus_words (fp f) (- 7)),
     interpreter_frame_locals = (\<lambda>m f. plus_words (fp f) (sint (m (plus_words (fp f) (- 8))))) \<rparr>"

text \<open>
  The stack of the sample thread: an interpreted frame at \<open>fp = 0x18000\<close> called from
  the compiled method, and below it compiled frames whose return address is in the
  compiled method (\<open>sp = 0x17000\<close>), in the interpreter (\<open>sp = 0x17EE0\<close>), the call
  stub's (\<open>sp = 0x14000\<close>) and the return barrier (\<open>sp = 0x15000\<close>); a native frame
  at \<open>fp = 0x16040\<close>; and at \<open>sp = 0x14070\<close> a compiled frame that returns to the
  call stub with a saved frame pointer \<open>0x14080\<close> below the sender's \<open>sp = 0x14090\<close>.
\<close>

definition test_memory :: memory where
  "test_memory = (\<lambda>a. 0)
    (0x18008 := 0x00A5000000004010, 0x18000 := 0x18100, 0x17FF8 := 0x18010,
     0x17FE8 := 0xC00, 0x17FC8 := 0xD00, 0x17FC0 := 3, 0x17FB8 := 0xC44,
     0x17EF8 := 0x00A5000000006010, 0x17EF0 := 0x18000,
     0x17018 := 0x00A5000000004020, 0x17010 := 0x17040, 0x17008 := 0x4010,
     0x16FF8 := 0x00A5000000004010,
     0x16048 := 0x7777,
     0x15018 := 0x00A5000000008100, 0x15010 := 0x15040, 0x15000 := 0x15100,
     0x14018 := 0x00A5000000008008, 0x14010 := 0x14080, 0x14040 := 0x14100,
     0x14088 := 0x00A5000000008008, 0x14080 := 0x14080)"

definition interpreted_frame :: frame where
  "interpreted_frame = \<lparr> sp = 0x17F00, unextended_sp = 0x17F00, fp = 0x18000, pc = 0x6010,
     cb = 0xE00, deopt_state = not_deoptimized, on_heap = False \<rparr>"

definition compiled_frame :: "address \<Rightarrow> frame" where
  "compiled_frame a = \<lparr> sp = a, unextended_sp = a, fp = 0, pc = 0x4010,
     cb = 0xA00, deopt_state = not_deoptimized, on_heap = False \<rparr>"

definition native_frame :: frame where
  "native_frame = \<lparr> sp = 0x16000, unextended_sp = 0x16000, fp = 0x16040, pc = 0x7000,
     cb = 0, deopt_state = not_deoptimized, on_heap = False \<rparr>"

definition heap_frame :: "address \<Rightarrow> frame" where
  "heap_frame a = \<lparr> sp = a, unextended_sp = a, fp = 0, pc = 0x4010,
     cb = 0xA00, deopt_state = not_deoptimized, on_heap = True \<rparr>"

definition stub_frame :: frame where
  "stub_frame = \<lparr> sp = 0x17000, unextended_sp = 0x17000, fp = 0, pc = 0x8010,
     cb = 0xB00, deopt_state = not_deoptimized, on_heap = False \<rparr>"

definition test_anchor :: "address \<Rightarrow> address \<Rightarrow> java_frame_anchor" where
  "test_anchor a b = \<lparr> last_Java_sp = a, last_Java_fp = 0x13040, last_Java_pc = b \<rparr>"

lemmas test_defs =
  test_layout_def test_thread_def test_nmethod_def test_nmethod_blob_def test_stub_blob_def
  test_interpreter_blob_def test_find_blob_def test_heap_def test_vm_def test_memory_def
  interpreted_frame_def compiled_frame_def native_frame_def heap_frame_def stub_frame_def
  test_anchor_def plus_words_def minus_ptr_def wordSize_def

section \<open>Frames that are safe without a check, and frames that never are\<close>

text \<open>
  Claim C9. For every frame classified as a heap frame, \<^verbatim>\<open>safe_for_sender\<close> returns
  true at once: whatever the thread, the stack and the fields \<^verbatim>\<open>sp\<close>,
  \<^verbatim>\<open>unextended_sp\<close>, \<^verbatim>\<open>fp\<close> and \<^verbatim>\<open>pc\<close> are, no stack-bounds, frame-pointer or
  code-blob check has a say.
\<close>

theorem safe_for_sender_heap_frame:
  "is_heap_frame env f \<Longrightarrow> safe_for_sender env thread m f = Inr True"
  by (simp add: safe_for_sender_def)

theorem safe_for_sender_heap_frame_witness:
  "is_heap_frame test_vm (heap_frame 0) \<and>
   safe_for_sender test_vm test_thread test_memory (heap_frame 0) = Inr True \<and>
   is_heap_frame test_vm (heap_frame 0x17000) \<and>
   safe_for_sender test_vm test_thread (\<lambda>a. 0) (heap_frame 0x17000) = Inr True"
  using safe_for_sender_heap_frame [of test_vm "heap_frame 0" test_thread test_memory]
    safe_for_sender_heap_frame [of test_vm "heap_frame 0x17000" test_thread "\<lambda>a. 0"]
  by (simp add: test_vm_def heap_frame_def)

text \<open>
  Claim C1, as stated: every frame whose \<^verbatim>\<open>sp\<close> lies outside the usable stack of the
  thread is refused. A heap frame is accepted before \<^verbatim>\<open>sp\<close> is looked at: the frame
  below has \<^verbatim>\<open>sp = 0x400\<close>, far below the stack of the sample thread, and is safe.
\<close>

theorem heap_frame_outside_usable_stack_is_safe:
  "\<not> is_in_usable_stack test_thread (sp (heap_frame 0x400)) \<and>
   safe_for_sender test_vm test_thread test_memory (heap_frame 0x400) = Inr True"
  by (simp add: safe_for_sender_def test_vm_def heap_frame_def test_thread_def)

text \<open>
  Claim C1, amended: for every frame that is not a heap frame and whose \<^verbatim>\<open>sp\<close> lies
  outside the usable stack of the owning thread, \<^verbatim>\<open>safe_for_sender\<close> returns false.
\<close>

theorem safe_for_sender_sp_outside_usable_stack:
  "\<not> is_heap_frame env f \<Longrightarrow> \<not> is_in_usable_stack thread (sp f) \<Longrightarrow>
   safe_for_sender env thread m f = Inr False"
  by (simp add: safe_for_sender_def)

theorem safe_for_sender_sp_outside_usable_stack_witness:
  "\<not> is_heap_frame test_vm (compiled_frame 0x400) \<and>
   \<not> is_in_usable_stack test_thread (sp (compiled_frame 0x400)) \<and>
   safe_for_sender test_vm test_thread test_memory (compiled_frame 0x400) = Inr False"
  using safe_for_sender_sp_outside_usable_stack
    [of test_vm "compiled_frame 0x400" test_thread test_memory]
  by (simp add: test_vm_def compiled_frame_def test_thread_def)

section \<open>Frames without a code blob\<close>

text \<open>
  Claim C7. When no code blob resolves for the pc of the frame, and \<^verbatim>\<open>sp\<close> and
  \<^verbatim>\<open>unextended_sp\<close> have passed the stack checks, \<^verbatim>\<open>safe_for_sender\<close> returns true
  exactly when \<^verbatim>\<open>fp\<close> lies strictly between \<^verbatim>\<open>sp\<close> and the top of the stack, the
  return-address slot at its fixed offset from \<^verbatim>\<open>fp\<close> is within the stack of the
  thread, and the word stored in that slot is not null.
\<close>

theorem safe_for_sender_native_frame:
  assumes "\<not> is_heap_frame env f"
    and "is_in_usable_stack thread (sp f)"
    and "is_in_full_stack_checked thread (unextended_sp f)"
    and "cb f = 0"
  shows "safe_for_sender env thread m f =
    Inr (is_in_stack_range_excl thread (fp f) (sp f) \<and>
         is_in_full_stack_checked thread (plus_words (fp f) (return_addr_offset (layout env))) \<and>
         m (plus_words (fp f) (return_addr_offset (layout env))) \<noteq> 0)"
  using assms
  by (auto simp add: safe_for_sender_def fp_safe_def plus_words_def mult.commute)

theorem safe_for_sender_native_frame_witness:
  "\<not> is_heap_frame test_vm native_frame \<and> is_in_usable_stack test_thread (sp native_frame) \<and>
   is_in_full_stack_checked test_thread (unextended_sp native_frame) \<and> cb native_frame = 0 \<and>
   safe_for_sender test_vm test_thread test_memory native_frame = Inr True \<and>
   safe_for_sender test_vm test_thread (\<lambda>a. 0) native_frame = Inr False"
  using safe_for_sender_native_frame [of test_vm native_frame test_thread test_memory]
    safe_for_sender_native_frame [of test_vm native_frame test_thread "\<lambda>a. 0"]
  by (simp add: test_defs)

section \<open>The candidate sender of a compiled frame\<close>

text \<open>
  Claim C4. Take a frame on the stack of the thread whose code blob is neither the
  interpreter's nor an entry or upcall stub's (a compiled method, a runtime stub or the
  like). If \<^verbatim>\<open>frame_size()\<close> of the blob is zero or less, \<^verbatim>\<open>safe_for_sender\<close>
  returns false. The candidate sender \<^verbatim>\<open>sp\<close> is \<^verbatim>\<open>unextended_sp + frame_size()\<close>;
  if it is not in the full stack of the thread, \<^verbatim>\<open>safe_for_sender\<close> returns false, and
  no other value is ever handed on as the candidate.
\<close>

theorem safe_for_sender_compiled_frame_size:
  assumes "\<not> is_heap_frame env f"
    and "cb f \<noteq> 0"
    and "\<not> is_entry_frame env f"
    and "\<not> is_upcall_stub_frame env f"
    and "\<not> is_interpreted_frame env f"
  shows "(frame_size (blob_at (heap env) (cb f)) \<le> 0 \<longrightarrow>
            safe_for_sender env thread m f = Inr False) \<and>
         (\<not> is_in_full_stack_checked thread
              (plus_words (unextended_sp f) (frame_size (blob_at (heap env) (cb f)))) \<longrightarrow>
            safe_for_sender env thread m f = Inr False) \<and>
         (\<forall>sender_sp sender_unextended_sp saved_fp sender_pc.
            sender_candidate env thread m f
              = Some (sender_sp, sender_unextended_sp, saved_fp, sender_pc) \<longrightarrow>
            sender_sp = plus_words (unextended_sp f) (frame_size (blob_at (heap env) (cb f))) \<and>
            0 < frame_size (blob_at (heap env) (cb f)) \<and>
            is_in_full_stack_checked thread sender_sp)"
  using assms
  by (auto simp add: safe_for_sender_def sender_candidate_def Let_def split: if_splits)

theorem safe_for_sender_compiled_frame_size_witness:
  "frame_size (blob_at (heap test_vm) (cb stub_frame)) \<le> 0 \<and>
   safe_for_sender test_vm test_thread test_memory stub_frame = Inr False \<and>
   \<not> is_in_full_stack_checked test_thread
       (plus_words (unextended_sp (compiled_frame 0x1FFF0))
          (frame_size (blob_at (heap test_vm) (cb (compiled_frame 0x1FFF0))))) \<and>
   safe_for_sender test_vm test_thread test_memory (compiled_frame 0x1FFF0) = Inr False \<and>
   sender_candidate test_vm test_thread test_memory (compiled_frame 0x17000)
     = Some (0x17020, 0x17020, 0x17040, 0x4020)"
  using safe_for_sender_compiled_frame_size [of test_vm stub_frame test_thread test_memory]
    safe_for_sender_compiled_frame_size
      [of test_vm "compiled_frame 0x1FFF0" test_thread test_memory]
    safe_for_sender_compiled_frame_size
      [of test_vm "compiled_frame 0x17000" test_thread test_memory]
  by (simp add: sender_candidate_def test_defs)

section \<open>The return barrier\<close>

text \<open>
  Claim C5. When \<^verbatim>\<open>safe_for_sender\<close> has computed a candidate sender and the
  candidate pc is the return-barrier entry, it returns false unless
  \<^verbatim>\<open>Continuation::is_frame_in_continuation\<close> confirms that the frame belongs to a
  continuation. When it does, the candidate \<^verbatim>\<open>sp\<close> and \<^verbatim>\<open>pc\<close> are replaced by those
  of \<^verbatim>\<open>Continuation::continuation_bottom_sender\<close>, and every further check runs on the
  replaced values. The first eight assumptions say that the function reaches the
  computation of the candidate.
\<close>

theorem safe_for_sender_return_barrier:
  assumes "\<not> is_heap_frame env f"
    and "is_in_usable_stack thread (sp f)"
    and "is_in_full_stack_checked thread (unextended_sp f)"
    and "cb f \<noteq> 0"
    and "is_frame_complete_at (blob_at (heap env) (cb f)) (pc f) \<or>
         \<not> (is_nmethod (blob_at (heap env) (cb f)) \<or>
            is_adapter_blob (blob_at (heap env) (cb f)) \<or>
            is_runtime_stub (blob_at (heap env) (cb f)))"
    and "code_contains (blob_at (heap env) (cb f)) (pc f)"
    and "\<not> is_entry_frame env f"
    and "\<not> is_upcall_stub_frame env f"
    and "sender_candidate env thread m f
           = Some (sender_sp, sender_unextended_sp, saved_fp, sender_pc)"
    and "is_return_barrier_entry env sender_pc"
  shows "safe_for_sender env thread m f =
    (if \<not> is_frame_in_continuation env thread f then Inr False
     else safe_for_sender_checks env thread m
            (sp (continuation_bottom_sender env thread f sender_sp))
            sender_unextended_sp saved_fp
            (pc (continuation_bottom_sender env thread f sender_sp)))"
  using assms
  by (auto simp add: safe_for_sender_def safe_for_sender_barrier_def Let_def)

theorem safe_for_sender_return_barrier_witness:
  "sender_candidate test_vm test_thread test_memory (compiled_frame 0x15000)
     = Some (0x15020, 0x15020, 0x15040, 0x8100) \<and>
   is_return_barrier_entry test_vm 0x8100 \<and>
   \<not> is_frame_in_continuation test_vm test_thread (compiled_frame 0x15000) \<and>
   safe_for_sender test_vm test_thread test_memory (compiled_frame 0x15000) = Inr False \<and>
   is_frame_in_continuation (test_vm\<lparr>is_frame_in_continuation := \<lambda>thread f. True\<rparr>)
     test_thread (compiled_frame 0x15000) \<and>
   safe_for_sender (test_vm\<lparr>is_frame_in_continuation := \<lambda>thread f. True\<rparr>)
     test_thread test_memory (compiled_frame 0x15000)
     = safe_for_sender_checks (test_vm\<lparr>is_frame_in_continuation := \<lambda>thread f. True\<rparr>)
         test_thread test_memory 0x14020 0x15020 0x15040 0x8008 \<and>
   safe_for_sender (test_vm\<lparr>is_frame_in_continuation := \<lambda>thread f. True\<rparr>)
     test_thread test_memory (compiled_frame 0x15000) = Inr True"
proof -
  let ?f = "compiled_frame 0x15000"
  let ?vm = "test_vm\<lparr>is_frame_in_continuation := \<lambda>thread f. True\<rparr>"
  have cand: "sender_candidate test_vm test_thread test_memory ?f
      = Some (0x15020, 0x15020, 0x15040, 0x8100)"
    by (simp add: sender_candidate_def test_defs)
  have cand': "sender_candidate ?vm test_thread test_memory ?f
      = Some (0x15020, 0x15020, 0x15040, 0x8100)"
    by (simp add: sender_candidate_def test_defs)
  have no: "safe_for_sender test_vm test_thread test_memory ?f = Inr False"
    using safe_for_sender_return_barrier
      [of test_vm ?f test_thread test_memory, OF _ _ _ _ _ _ _ _ cand]
    by (simp add: test_defs)
  have yes: "safe_for_sender ?vm test_thread test_memory ?f
      = safe_for_sender_checks ?vm test_thread test_memory 0x14020 0x15020 0x15040 0x8008"
    using safe_for_sender_return_barrier
      [of ?vm ?f test_thread test_memory, OF _ _ _ _ _ _ _ _ cand']
    by (simp add: test_defs)
  have chk: "safe_for_sender_checks ?vm test_thread test_memory 0x14020 0x15020 0x15040 0x8008
      = Inr True"
    by (simp add: safe_for_sender_checks_def test_defs)
  show ?thesis
    using cand no yes chk by (simp add: test_vm_def)
qed

section \<open>What a valid interpreted frame looks like\<close>

text \<open>
  Claim C2, as stated, bounds the gap between \<^verbatim>\<open>fp\<close> and the stack pointer
  \<^verbatim>\<open>sp\<close> of every frame that \<^verbatim>\<open>is_interpreted_frame_valid\<close> accepts. The function
  takes the gap from \<^verbatim>\<open>unextended_sp\<close> and says why: \<^verbatim>\<open>sp\<close> "could point further
  because of local variables of the callee method". The interpreted frame of the sample
  stack, with its \<^verbatim>\<open>sp\<close> moved down to \<^verbatim>\<open>0x12000\<close>, is accepted: \<^verbatim>\<open>fp\<close> is 3072
  words above \<^verbatim>\<open>sp\<close>, the bound is 1024 + 5 * 8 = 1064 words, and \<^verbatim>\<open>fp\<close> is 32
  words above \<^verbatim>\<open>unextended_sp\<close>.
\<close>

theorem interpreted_frame_far_above_sp_is_valid:
  "is_interpreted_frame_valid test_vm test_thread test_memory
     (interpreted_frame\<lparr>sp := 0x12000\<rparr>) = Inr True \<and>
   minus_ptr (fp (interpreted_frame\<lparr>sp := 0x12000\<rparr>))
     (sp (interpreted_frame\<lparr>sp := 0x12000\<rparr>)) = 3072 \<and>
   minus_ptr (fp (interpreted_frame\<lparr>sp := 0x12000\<rparr>))
     (unextended_sp (interpreted_frame\<lparr>sp := 0x12000\<rparr>)) = 32 \<and>
   sint (1024 + max_stack (heap test_vm)
           (safe_interpreter_frame_method test_vm test_memory
              (interpreted_frame\<lparr>sp := 0x12000\<rparr>))
         * stackElementSize (layout test_vm)) = 1064"
  by (simp add: is_interpreted_frame_valid_def test_defs)

text \<open>
  Claim C2, amended. \<^verbatim>\<open>is_interpreted_frame_valid\<close> returns true only if all of this
  holds: \<^verbatim>\<open>fp\<close> and \<^verbatim>\<open>sp\<close> are not null and word-aligned; \<^verbatim>\<open>fp\<close> is strictly
  above \<^verbatim>\<open>sp\<close>; the distance in words from \<^verbatim>\<open>unextended_sp\<close> (not \<^verbatim>\<open>sp\<close>) up to
  \<^verbatim>\<open>fp\<close> is at most 1024 plus \<^verbatim>\<open>max_stack()\<close> of the method times the stack element
  size, as C \<^verbatim>\<open>int\<close> arithmetic gives it; the method found in the frame passes
  \<^verbatim>\<open>Method::is_valid_method\<close>; the stored bytecode pointer gives a bytecode index that
  is not negative; the stored constant-pool cache passes \<^verbatim>\<open>MetaspaceObj::is_valid\<close>;
  and the locals lie on the stack of the thread from \<^verbatim>\<open>fp\<close> upwards. In particular a
  frame with \<^verbatim>\<open>fp \<le> sp\<close> is never accepted: the function returns false (a build with
  assertions aborts instead when the frame is not an interpreted frame at all).
\<close>

theorem is_interpreted_frame_valid_only_if:
  "(is_interpreted_frame_valid env thread m f = Inr True \<longrightarrow>
      fp f \<noteq> 0 \<and> fp f AND 7 = 0 \<and> sp f \<noteq> 0 \<and> sp f AND 7 = 0 \<and> sp f < fp f \<and>
      minus_ptr (fp f) (unextended_sp f)
        \<le> sint (1024 + max_stack (heap env) (safe_interpreter_frame_method env m f)
                          * stackElementSize (layout env)) \<and>
      is_valid_method (heap env) (safe_interpreter_frame_method env m f) \<and>
      0 \<le> validate_bci_from_bcp (heap env) (safe_interpreter_frame_method env m f)
            (interpreter_frame_bcp env m f) \<and>
      MetaspaceObj_is_valid (heap env) (m (interpreter_frame_cache_addr env f)) \<and>
      is_in_stack_range_incl thread (interpreter_frame_locals env m f) (fp f)) \<and>
   (fp f \<le> sp f \<longrightarrow>
      is_interpreted_frame_valid env thread m f =
        (if ASSERT env \<and> \<not> is_interpreted_frame env f then Inl Not_an_interpreted_frame
         else Inr False))"
  by (auto simp add: is_interpreted_frame_valid_def Let_def wordSize_def split: if_splits)

theorem is_interpreted_frame_valid_only_if_witness:
  "is_interpreted_frame_valid test_vm test_thread test_memory interpreted_frame = Inr True \<and>
   sp interpreted_frame < fp interpreted_frame \<and>
   minus_ptr (fp interpreted_frame) (unextended_sp interpreted_frame) = 32 \<and>
   max_stack (heap test_vm)
     (safe_interpreter_frame_method test_vm test_memory interpreted_frame) = 5 \<and>
   fp (interpreted_frame\<lparr>fp := 0x17F00\<rparr>) \<le> sp (interpreted_frame\<lparr>fp := 0x17F00\<rparr>) \<and>
   is_interpreted_frame_valid test_vm test_thread test_memory
     (interpreted_frame\<lparr>fp := 0x17F00\<rparr>) = Inr False"
  using is_interpreted_frame_valid_only_if
      [of test_vm test_thread test_memory interpreted_frame]
    is_interpreted_frame_valid_only_if
      [of test_vm test_thread test_memory "interpreted_frame\<lparr>fp := 0x17F00\<rparr>"]
  by (simp add: is_interpreted_frame_valid_def test_defs)

section \<open>The checks of a sender that is not interpreted\<close>

text \<open>
  Claim C6, as stated, has \<^verbatim>\<open>safe_for_sender\<close> return true for a sender pc that is the
  call stub's return address exactly when the call wrapper lies strictly within the
  candidate sender frame. The function first asks for the saved \<^verbatim>\<open>fp\<close> to lie strictly
  between the candidate sender \<^verbatim>\<open>sp\<close> and the top of the stack, and returns false
  otherwise. The compiled frame at \<^verbatim>\<open>sp = 0x14070\<close> of the sample stack returns to the
  call stub; its call wrapper passes the range check against the sender's \<^verbatim>\<open>fp\<close>, its
  saved \<^verbatim>\<open>fp\<close> is below the sender's \<^verbatim>\<open>sp\<close>, and the frame is refused.
\<close>

theorem call_stub_sender_fp_below_sp_counterexample:
  "sender_candidate test_vm test_thread test_memory (compiled_frame 0x14070)
     = Some (0x14090, 0x14090, 0x14080, 0x8008) \<and>
   \<not> Interpreter_contains (heap test_vm) 0x8008 \<and>
   returns_to_call_stub (heap test_vm) 0x8008 \<and>
   is_in_stack_range_excl test_thread
     (entry_frame_call_wrapper test_vm test_memory
        (new_frame test_vm 0x14090 0x14090 0x14080 0x8008))
     (fp (new_frame test_vm 0x14090 0x14090 0x14080 0x8008)) \<and>
   safe_for_sender_checks test_vm test_thread test_memory 0x14090 0x14090 0x14080 0x8008
     = Inr False \<and>
   safe_for_sender test_vm test_thread test_memory (compiled_frame 0x14070) = Inr False"
  by (simp add: safe_for_sender_def sender_candidate_def safe_for_sender_barrier_def
      safe_for_sender_checks_def test_defs)

text \<open>
  Claim C6, amended. When the candidate sender pc is not inside the interpreter,
  \<^verbatim>\<open>safe_for_sender\<close> decides in this order. It returns false unless a code blob
  resolves for the sender pc and contains it. It returns false if that blob is an
  adapter blob. If the sender pc is the call stub's return address, it returns true
  exactly when the saved \<^verbatim>\<open>fp\<close> lies strictly between the candidate sender \<^verbatim>\<open>sp\<close>
  and the top of the stack and the call wrapper lies strictly between the \<^verbatim>\<open>fp\<close> of
  the candidate sender and the top of the stack. Otherwise it returns false if the blob
  is an upcall stub; false if the blob is a compiled method and the sender pc is its
  deopt entry or its deopt method-handle entry, or its method is a method-handle
  intrinsic; false if \<^verbatim>\<open>frame_size()\<close> of the blob is zero or less (a build with
  assertions aborts there when the blob is an nmethod); false if the blob is not an
  nmethod; and true otherwise.
\<close>

theorem safe_for_sender_checks_compiled_sender:
  assumes "\<not> Interpreter_contains (heap env) sender_pc"
  shows "safe_for_sender_checks env thread m sender_sp sender_unextended_sp saved_fp sender_pc =
    (let sender_blob = blob_at (heap env) (find_blob (heap env) sender_pc);
         sender = new_frame env sender_sp sender_unextended_sp saved_fp sender_pc
     in
     if sender_pc = 0 \<or> find_blob (heap env) sender_pc = 0 \<or>
        \<not> code_contains sender_blob sender_pc then Inr False
     else if is_adapter_blob sender_blob then Inr False
     else if returns_to_call_stub (heap env) sender_pc then
       Inr (is_in_stack_range_excl thread saved_fp sender_sp \<and>
            is_in_stack_range_excl thread (entry_frame_call_wrapper env m sender) (fp sender))
     else if is_upcall_stub sender_blob then Inr False
     else if (\<exists>nm. as_nmethod_or_null sender_blob = Some nm \<and>
                (is_deopt_mh_entry nm sender_pc \<or> is_deopt_entry nm sender_pc \<or>
                 method_is_method_handle_intrinsic nm)) then Inr False
     else if frame_size sender_blob \<le> 0 then
       if ASSERT env \<and> is_nmethod sender_blob then Inl Should_count_return_address
       else Inr False
     else if \<not> is_nmethod sender_blob then Inr False
     else Inr True)"
  using assms
  by (cases "as_nmethod_or_null (blob_at (heap env) (find_blob (heap env) sender_pc))")
    (simp_all add: safe_for_sender_checks_def Let_def)

theorem safe_for_sender_checks_compiled_sender_witness:
  "\<not> Interpreter_contains (heap test_vm) 0x4020 \<and>
   safe_for_sender_checks test_vm test_thread test_memory 0x17020 0x17020 0x17040 0x4020
     = Inr True \<and>
   \<not> Interpreter_contains (heap test_vm) 0x8008 \<and>
   safe_for_sender_checks test_vm test_thread test_memory 0x14020 0x14020 0x14080 0x8008
     = Inr True \<and>
   \<not> Interpreter_contains (heap test_vm) 0x4F00 \<and>
   safe_for_sender_checks test_vm test_thread test_memory 0x17020 0x17020 0x17040 0x4F00
     = Inr False \<and>
   \<not> Interpreter_contains (heap test_vm) 0x8010 \<and>
   safe_for_sender_checks test_vm test_thread test_memory 0x17020 0x17020 0x17040 0x8010
     = Inr False \<and>
   \<not> Interpreter_contains (heap test_vm) 0 \<and>
   safe_for_sender_checks test_vm test_thread test_memory 0x17020 0x17020 0x17040 0
     = Inr False"
  using safe_for_sender_checks_compiled_sender
      [of test_vm "0x4020" test_thread test_memory "0x17020" "0x17020" "0x17040"]
    safe_for_sender_checks_compiled_sender
      [of test_vm "0x8008" test_thread test_memory "0x14020" "0x14020" "0x14080"]
    safe_for_sender_checks_compiled_sender
      [of test_vm "0x4F00" test_thread test_memory "0x17020" "0x17020" "0x17040"]
    safe_for_sender_checks_compiled_sender
      [of test_vm "0x8010" test_thread test_memory "0x17020" "0x17020" "0x17040"]
    safe_for_sender_checks_compiled_sender
      [of test_vm 0 test_thread test_memory "0x17020" "0x17020" "0x17040"]
  by (simp add: test_defs)

section \<open>The return-address patch\<close>

lemma patch_pc_mismatch_only_if:
  "patch_pc env m f new_pc = Inl Return_address_mismatch \<Longrightarrow>
     pauth_strip_verifiable (heap env) (m (plus_words (sp f) (- 1))) \<noteq> new_pc"
  by (simp add: patch_pc_def Let_def split: if_splits)

lemma patch_pc_Inr_memory:
  "patch_pc env m f new_pc = Inr (m', f') \<Longrightarrow>
     m' = m(plus_words (sp f) (- 1) := pauth_sign_return_address (heap env) new_pc)"
  by (simp add: patch_pc_def Let_def split: if_splits)

lemma patch_pc_Inr_frame:
  "patch_pc env m f new_pc = Inr (m', f') \<Longrightarrow>
     f' = (if get_deopt_original_pc env m' (f\<lparr>pc := new_pc\<rparr>) \<noteq> 0
           then f\<lparr>pc := get_deopt_original_pc env m' (f\<lparr>pc := new_pc\<rparr>),
                   deopt_state := is_deoptimized\<rparr>
           else f\<lparr>pc := new_pc, deopt_state := not_deoptimized\<rparr>)"
  by (auto simp add: patch_pc_def Let_def split: if_splits)

lemma patch_pc_product_build:
  "\<not> ASSERT env \<Longrightarrow> \<exists>m' f'. patch_pc env m f new_pc = Inr (m', f')"
  by (simp add: patch_pc_def Let_def)

text \<open>
  Claim C3. Let the platform's strip undo its sign on the new pc. Whenever
  \<^verbatim>\<open>patch_pc(thread, new_pc)\<close> returns:
  \<^item> it has written the signed \<^verbatim>\<open>new_pc\<close> into the slot one word below \<^verbatim>\<open>sp\<close> and
    nothing else, so the stripped value of that slot is \<^verbatim>\<open>new_pc\<close>;
  \<^item> the original pc was asked for with the pc of the frame already set to the unsigned
    \<^verbatim>\<open>new_pc\<close> (and with the slot already written);
  \<^item> if the original pc is not null, the frame is \<^verbatim>\<open>is_deoptimized\<close> and its pc is
    the original pc; otherwise the frame is \<^verbatim>\<open>not_deoptimized\<close> and its pc is
    \<^verbatim>\<open>new_pc\<close>;
  \<^item> a second \<^verbatim>\<open>patch_pc\<close> with the same pc on the resulting frame and stack does not
    fail the consistency assertion.
  In a product build \<^verbatim>\<open>patch_pc\<close> always returns.
\<close>

theorem patch_pc_writes_and_classifies:
  assumes strip_sign:
    "pauth_strip_verifiable (heap env) (pauth_sign_return_address (heap env) new_pc) = new_pc"
  shows "(\<forall>m' f'. patch_pc env m f new_pc = Inr (m', f') \<longrightarrow>
            m' = m(plus_words (sp f) (- 1) := pauth_sign_return_address (heap env) new_pc) \<and>
            pauth_strip_verifiable (heap env) (m' (plus_words (sp f) (- 1))) = new_pc \<and>
            (if get_deopt_original_pc env m' (f\<lparr>pc := new_pc\<rparr>) \<noteq> 0
             then f' = f\<lparr>pc := get_deopt_original_pc env m' (f\<lparr>pc := new_pc\<rparr>),
                         deopt_state := is_deoptimized\<rparr>
             else f' = f\<lparr>pc := new_pc, deopt_state := not_deoptimized\<rparr>) \<and>
            patch_pc env m' f' new_pc \<noteq> Inl Return_address_mismatch) \<and>
         (\<not> ASSERT env \<longrightarrow> (\<exists>m' f'. patch_pc env m f new_pc = Inr (m', f')))"
proof (intro conjI allI impI)
  fix m' f'
  assume ret: "patch_pc env m f new_pc = Inr (m', f')"
  show written: "m' = m(plus_words (sp f) (- 1) := pauth_sign_return_address (heap env) new_pc)"
    using ret by (rule patch_pc_Inr_memory)
  show stripped: "pauth_strip_verifiable (heap env) (m' (plus_words (sp f) (- 1))) = new_pc"
    using written strip_sign by simp
  have frame: "f' = (if get_deopt_original_pc env m' (f\<lparr>pc := new_pc\<rparr>) \<noteq> 0
           then f\<lparr>pc := get_deopt_original_pc env m' (f\<lparr>pc := new_pc\<rparr>),
                   deopt_state := is_deoptimized\<rparr>
           else f\<lparr>pc := new_pc, deopt_state := not_deoptimized\<rparr>)"
    using ret by (rule patch_pc_Inr_frame)
  show "if get_deopt_original_pc env m' (f\<lparr>pc := new_pc\<rparr>) \<noteq> 0
        then f' = f\<lparr>pc := get_deopt_original_pc env m' (f\<lparr>pc := new_pc\<rparr>),
                    deopt_state := is_deoptimized\<rparr>
        else f' = f\<lparr>pc := new_pc, deopt_state := not_deoptimized\<rparr>"
    using frame by (simp split: if_splits)
  have same_sp: "sp f' = sp f"
    using frame by (simp split: if_splits)
  show "patch_pc env m' f' new_pc \<noteq> Inl Return_address_mismatch"
  proof
    assume "patch_pc env m' f' new_pc = Inl Return_address_mismatch"
    then have "pauth_strip_verifiable (heap env) (m' (plus_words (sp f') (- 1))) \<noteq> new_pc"
      by (rule patch_pc_mismatch_only_if)
    with stripped same_sp show False by simp
  qed
next
  assume "\<not> ASSERT env"
  then show "\<exists>m' f'. patch_pc env m f new_pc = Inr (m', f')"
    by (rule patch_pc_product_build)
qed

theorem patch_pc_writes_and_classifies_witness:
  "pauth_strip_verifiable (heap test_vm) (pauth_sign_return_address (heap test_vm) 0x4F00)
     = 0x4F00 \<and>
   patch_pc test_vm test_memory (compiled_frame 0x17000) 0x4F00
     = Inr (test_memory(0x16FF8 := 0x00A5000000004F00),
            (compiled_frame 0x17000)\<lparr>deopt_state := is_deoptimized\<rparr>) \<and>
   pauth_strip_verifiable (heap test_vm)
     ((test_memory(0x16FF8 := 0x00A5000000004F00)) 0x16FF8) = 0x4F00 \<and>
   patch_pc test_vm (test_memory(0x16FF8 := 0x00A5000000004F00))
       ((compiled_frame 0x17000)\<lparr>deopt_state := is_deoptimized\<rparr>) 0x4F00
     \<noteq> Inl Return_address_mismatch \<and>
   patch_pc test_vm test_memory (compiled_frame 0x17000) 0x4020
     = Inr (test_memory(0x16FF8 := 0x00A5000000004020),
            (compiled_frame 0x17000)\<lparr>pc := 0x4020\<rparr>) \<and>
   patch_pc test_vm (test_memory(0x16FF8 := 0x00A5000000004020))
       ((compiled_frame 0x17000)\<lparr>pc := 0x4020\<rparr>) 0x4020
     \<noteq> Inl Return_address_mismatch"
proof -
  let ?f = "compiled_frame 0x17000"
  have law: "pauth_strip_verifiable (heap test_vm) (pauth_sign_return_address (heap test_vm) a)
      = a" if "a = 0x4F00 \<or> a = 0x4020" for a
    using that by (auto simp add: test_defs)
  have deopt: "patch_pc test_vm test_memory ?f 0x4F00
     = Inr (test_memory(0x16FF8 := 0x00A5000000004F00), ?f\<lparr>deopt_state := is_deoptimized\<rparr>)"
    by (simp add: patch_pc_def test_defs)
  have plain: "patch_pc test_vm test_memory ?f 0x4020
     = Inr (test_memory(0x16FF8 := 0x00A5000000004020), ?f\<lparr>pc := 0x4020\<rparr>)"
    by (simp add: patch_pc_def test_defs)
  have again_deopt: "patch_pc test_vm (test_memory(0x16FF8 := 0x00A5000000004F00))
       (?f\<lparr>deopt_state := is_deoptimized\<rparr>) 0x4F00 \<noteq> Inl Return_address_mismatch"
    using patch_pc_writes_and_classifies [of test_vm "0x4F00" test_memory ?f]
      law [of "0x4F00"] deopt
    by blast
  have again_plain: "patch_pc test_vm (test_memory(0x16FF8 := 0x00A5000000004020))
       (?f\<lparr>pc := 0x4020\<rparr>) 0x4020 \<noteq> Inl Return_address_mismatch"
    using patch_pc_writes_and_classifies [of test_vm "0x4020" test_memory ?f]
      law [of "0x4020"] plain
    by blast
  have stripped: "pauth_strip_verifiable (heap test_vm)
     ((test_memory(0x16FF8 := 0x00A5000000004F00)) 0x16FF8) = 0x4F00"
    by (simp add: test_defs)
  show ?thesis
    using law [of "0x4F00"] deopt plain again_deopt again_plain stripped by blast
qed

text \<open>
  Claim C10. The consistency assertion of \<^verbatim>\<open>patch_pc\<close> fires exactly when assertions
  are compiled in, the two assertions before it hold, and the stripped old return
  address is not null and differs from both the pc the frame had recorded and the new
  pc. So it passes when the stripped old return address is null.
\<close>

theorem patch_pc_consistency_assertion:
  "patch_pc env m f new_pc = Inl Return_address_mismatch \<longleftrightarrow>
     ASSERT env \<and> cb f = find_blob (heap env) new_pc \<and>
     \<not> is_return_barrier_entry env
         (pauth_strip_verifiable (heap env) (m (plus_words (sp f) (- 1)))) \<and>
     pauth_strip_verifiable (heap env) (m (plus_words (sp f) (- 1))) \<noteq> 0 \<and>
     pauth_strip_verifiable (heap env) (m (plus_words (sp f) (- 1))) \<noteq> pc f \<and>
     pauth_strip_verifiable (heap env) (m (plus_words (sp f) (- 1))) \<noteq> new_pc"
  by (auto simp add: patch_pc_def Let_def split: if_splits)

theorem patch_pc_consistency_assertion_witness:
  "pauth_strip_verifiable (heap test_vm)
     (test_memory (plus_words (sp (compiled_frame 0x13000)) (- 1))) = 0 \<and>
   patch_pc test_vm test_memory (compiled_frame 0x13000) 0x4020
     \<noteq> Inl Return_address_mismatch \<and>
   pauth_strip_verifiable (heap test_vm)
     (test_memory (plus_words (sp (compiled_frame 0x17020)) (- 1))) = 0x4020 \<and>
   pc (compiled_frame 0x17020) = 0x4010 \<and>
   patch_pc test_vm test_memory (compiled_frame 0x17020) 0x4F00
     = Inl Return_address_mismatch"
  using patch_pc_consistency_assertion
      [of test_vm test_memory "compiled_frame 0x13000" "0x4020"]
    patch_pc_consistency_assertion
      [of test_vm test_memory "compiled_frame 0x17020" "0x4F00"]
  by (simp add: test_defs)

section \<open>Making the anchor walkable\<close>

text \<open>
  What \<^verbatim>\<open>make_walkable\<close> does, case by case. It does nothing when no call-out is
  recorded (\<^verbatim>\<open>last_Java_sp\<close> is null) and nothing when the anchor is already
  walkable. Otherwise it loads exactly the word below the recorded stack pointer
  (\<^verbatim>\<open>last_Java_sp[-1]\<close>) and stores it in the pc of the anchor; where assertions are
  compiled in, the closing \<^verbatim>\<open>vmassert(walkable(), "something went wrong")\<close> aborts when
  that word is null. When the word is not null, the method is idempotent: two
  consecutive calls return, leave the same anchor, and load the stack word only once.
\<close>

lemma make_walkable_cases:
  "(last_Java_sp a = 0 \<or> walkable a \<longrightarrow> make_walkable env m a = Inr (a, [])) \<and>
   (last_Java_sp a \<noteq> 0 \<and> \<not> walkable a \<longrightarrow>
      make_walkable env m a =
        (if ASSERT env \<and> m (plus_words (last_Java_sp a) (- 1)) = 0
         then Inl Something_went_wrong
         else Inr (a\<lparr>last_Java_pc := m (plus_words (last_Java_sp a) (- 1))\<rparr>,
                   [plus_words (last_Java_sp a) (- 1)]))) \<and>
   (last_Java_sp a = 0 \<or> walkable a \<or> m (plus_words (last_Java_sp a) (- 1)) \<noteq> 0 \<longrightarrow>
      (\<exists>a1 loaded. make_walkable_twice env m a = Inr (a1, a1, loaded) \<and>
         length loaded \<le> 1))"
  by (auto simp add: make_walkable_twice_def make_walkable_def walkable_def)

text \<open>
  Where assertions are compiled in, every pair of consecutive calls that returns leaves
  the same anchor and loads the stack word at most once. In every build the pc of the
  anchor is the same after the second call as after the first.
\<close>

lemma make_walkable_twice_with_assertions:
  "ASSERT env \<Longrightarrow> make_walkable_twice env m a = Inr (a1, a2, loaded) \<Longrightarrow>
     a2 = a1 \<and> length loaded \<le> 1"
  by (auto simp add: make_walkable_twice_def make_walkable_def walkable_def Let_def
      split: if_splits)

lemma make_walkable_twice_same_pc:
  "make_walkable_twice env m a = Inr (a1, a2, loaded) \<Longrightarrow> last_Java_pc a2 = last_Java_pc a1"
  by (auto simp add: make_walkable_twice_def make_walkable_def walkable_def Let_def
      split: if_splits)

lemma make_walkable_example:
  "make_walkable test_vm test_memory (test_anchor 0 0) = Inr (test_anchor 0 0, []) \<and>
   make_walkable test_vm test_memory (test_anchor 0x17000 0x4010)
     = Inr (test_anchor 0x17000 0x4010, []) \<and>
   test_memory 0x16FF8 = 0x00A5000000004010 \<and>
   make_walkable test_vm test_memory (test_anchor 0x17000 0)
     = Inr (test_anchor 0x17000 0x00A5000000004010, [0x16FF8]) \<and>
   make_walkable_twice test_vm test_memory (test_anchor 0x17000 0)
     = Inr (test_anchor 0x17000 0x00A5000000004010,
            test_anchor 0x17000 0x00A5000000004010, [0x16FF8])"
  by (simp add: make_walkable_twice_def make_walkable_def walkable_def test_defs)


end
